theory Spec2Isabelle
  imports Complex_Main
begin

section \<open>Conventions\<close>

text \<open>
  Python floats are read as real numbers: rounding, overflow to an infinity and NaN are
  outside this development. Every \<^verbatim>\<open>raise\<close> and every failing \<^verbatim>\<open>assert\<close> of the source is
  a value \<open>Inl e\<close> of a result type \<open>error + 'a\<close>; \<^verbatim>\<open>math.inf\<close>, which the cost function
  returns on purpose, is a value of its own and not an error.
\<close>

datatype error =
    ValueError string
  | KeyError string
  | TypeError string
  | AttributeError string
  | AssertionError string
  | ZeroDivisionError

text \<open>\<^verbatim>\<open>math.radians\<close>.\<close>

definition radians :: "real \<Rightarrow> real" where
  "radians d = d * pi / 180"

text \<open>
  Python's \<^verbatim>\<open>a / b\<close> on floats raises \<^verbatim>\<open>ZeroDivisionError\<close> when \<^verbatim>\<open>b\<close> is zero (HOL's own
  \<open>a / 0\<close> is \<open>0\<close>, so the test is written out).
\<close>

definition float_truediv :: "real \<Rightarrow> real \<Rightarrow> error + real" where
  "float_truediv a b = (if b = 0 then Inl ZeroDivisionError else Inr (a / b))"

section \<open>linalg.py: Vec2\<close>

datatype Vec2 = Vec2 (Vec2_x: real) (Vec2_y: real)

definition Vec2_add :: "Vec2 \<Rightarrow> Vec2 \<Rightarrow> Vec2" where
  "Vec2_add self other = Vec2 (Vec2_x self + Vec2_x other) (Vec2_y self + Vec2_y other)"

definition Vec2_sub :: "Vec2 \<Rightarrow> Vec2 \<Rightarrow> Vec2" where
  "Vec2_sub self other = Vec2 (Vec2_x self - Vec2_x other) (Vec2_y self - Vec2_y other)"

text \<open>
  \<^verbatim>\<open>Vec2(self.x / other, self.y / other)\<close>: the arguments are evaluated left to right, and the
  first division that raises ends the call.
\<close>

definition Vec2_truediv :: "Vec2 \<Rightarrow> real \<Rightarrow> error + Vec2" where
  "Vec2_truediv self other =
     (case float_truediv (Vec2_x self) other of
        Inl e \<Rightarrow> Inl e
      | Inr qx \<Rightarrow>
          (case float_truediv (Vec2_y self) other of
             Inl e \<Rightarrow> Inl e
           | Inr qy \<Rightarrow> Inr (Vec2 qx qy)))"

definition Vec2_mul :: "Vec2 \<Rightarrow> real \<Rightarrow> Vec2" where
  "Vec2_mul self other = Vec2 (Vec2_x self * other) (Vec2_y self * other)"

definition Vec2_rotate :: "Vec2 \<Rightarrow> real \<Rightarrow> Vec2" where
  "Vec2_rotate self angle =
     Vec2 (Vec2_x self * cos angle - Vec2_y self * sin angle)
          (Vec2_x self * sin angle + Vec2_y self * cos angle)"

definition Vec2_dot :: "Vec2 \<Rightarrow> Vec2 \<Rightarrow> real" where
  "Vec2_dot self other = Vec2_x self * Vec2_x other + Vec2_y self * Vec2_y other"

definition unit_vector :: "real \<Rightarrow> Vec2" where
  "unit_vector angle = Vec2 (cos angle) (sin angle)"

definition unit_vector_deg :: "real \<Rightarrow> Vec2" where
  "unit_vector_deg angle = unit_vector (radians angle)"

section \<open>linalg.py: Transform2dHomogeneous\<close>

text \<open>
  The object holds one attribute, \<^verbatim>\<open>matrix\<close>, a 3 by 3 array kept here as its list of rows;
  \<^verbatim>\<open>__init__\<close> sets it to \<^verbatim>\<open>np.identity(3)\<close>.
\<close>

datatype T2D = T2D (matrix: "real list list")

definition T2D_init :: T2D where
  "T2D_init = T2D [[1, 0, 0], [0, 1, 0], [0, 0, 1]]"

text \<open>\<^verbatim>\<open>mat.matrix[i, j] = v\<close>; the source only writes inside the 3 by 3 range.\<close>

definition set_entry :: "T2D \<Rightarrow> nat \<Rightarrow> nat \<Rightarrow> real \<Rightarrow> T2D" where
  "set_entry mat i j v = T2D ((matrix mat)[i := (matrix mat ! i)[j := v]])"

definition new_translation_matrix :: "Vec2 \<Rightarrow> T2D" where
  "new_translation_matrix translation =
     (let mat = T2D_init;
          mat = set_entry mat 0 2 (Vec2_x translation);
          mat = set_entry mat 1 2 (Vec2_y translation)
      in mat)"

definition new_rotation_matrix :: "real \<Rightarrow> T2D" where
  "new_rotation_matrix rotation_rad =
     (let mat = T2D_init;
          mat = set_entry mat 0 0 (cos rotation_rad);
          mat = set_entry mat 0 1 (- sin rotation_rad);
          mat = set_entry mat 1 0 (sin rotation_rad);
          mat = set_entry mat 1 1 (cos rotation_rad)
      in mat)"

definition new_rotation_matrix_deg :: "real \<Rightarrow> T2D" where
  "new_rotation_matrix_deg rotation_deg = new_rotation_matrix (radians rotation_deg)"

text \<open>
  The class body defines \<^verbatim>\<open>__init__\<close>, \<^verbatim>\<open>new_translation_matrix\<close>, \<^verbatim>\<open>new_rotation_matrix\<close>,
  \<^verbatim>\<open>new_rotation_matrix_deg\<close>, \<^verbatim>\<open>chain_translate\<close>, \<^verbatim>\<open>chain_rotate\<close> and \<^verbatim>\<open>chain_rotate_deg\<close>,
  and nothing else. The two tables below are what a lookup on the class finds among the
  methods of two shapes that armature.py asks for: binary operator methods (taking the
  other transform) and methods taking a point. Both are empty.
\<close>

definition T2D_operator_methods :: "(string \<times> (T2D \<Rightarrow> T2D \<Rightarrow> error + T2D)) list" where
  "T2D_operator_methods = []"

definition T2D_point_methods :: "(string \<times> (T2D \<Rightarrow> Vec2 \<Rightarrow> error + Vec2)) list" where
  "T2D_point_methods = []"

text \<open>
  Python's \<^verbatim>\<open>a @ b\<close> for two instances of the class: it calls \<^verbatim>\<open>__matmul__\<close> of the class
  when there is one (the reflected method is not tried between operands of one type), and
  raises \<^verbatim>\<open>TypeError\<close> otherwise.
\<close>

definition T2D_matmul :: "T2D \<Rightarrow> T2D \<Rightarrow> error + T2D" where
  "T2D_matmul a b =
     (case map_of T2D_operator_methods ''__matmul__'' of
        Some method \<Rightarrow> method a b
      | None \<Rightarrow> Inl (TypeError ''unsupported operand type(s) for @''))"

section \<open>armature.py: Bone\<close>

text \<open>
  A bone with its four private attributes and the public \<^verbatim>\<open>parent\<close>. The parent is held by
  value, so a chain of parents is finite and ends in a bone without one.
\<close>

datatype Bone =
  Bone (Bone_name: string) (Bone_pos_offset: Vec2) (Bone_length: real)
       (Bone_rotation_rad: real) (Bone_parent: "Bone option")

text \<open>
  \<^verbatim>\<open>Bone.__init__\<close>: the last assignment of the source is \<^verbatim>\<open>self.parent = None\<close>, whatever
  the \<^verbatim>\<open>parent\<close> argument is.
\<close>

definition Bone_init :: "string \<Rightarrow> Vec2 \<Rightarrow> real \<Rightarrow> real \<Rightarrow> Bone option \<Rightarrow> Bone" where
  "Bone_init name pos_offset len rotation_rad parent =
     Bone name pos_offset len rotation_rad None"

definition get_transform_local :: "Bone \<Rightarrow> error + T2D" where
  "get_transform_local self =
     T2D_matmul (new_translation_matrix (Bone_pos_offset self))
                (new_rotation_matrix (Bone_rotation_rad self))"

text \<open>
  \<^verbatim>\<open>self.parent.get_transform_world() @ self.get_transform_local()\<close>: the left operand is
  evaluated first, then the right one, then the operator.
\<close>

fun get_transform_world :: "Bone \<Rightarrow> error + T2D" where
  "get_transform_world (Bone name pos_offset len rotation_rad None) =
     get_transform_local (Bone name pos_offset len rotation_rad None)"
| "get_transform_world (Bone name pos_offset len rotation_rad (Some parent)) =
     (case get_transform_world parent of
        Inl e \<Rightarrow> Inl e
      | Inr world \<Rightarrow>
          (case get_transform_local (Bone name pos_offset len rotation_rad (Some parent)) of
             Inl e \<Rightarrow> Inl e
           | Inr local \<Rightarrow> T2D_matmul world local))"

text \<open>
  \<^verbatim>\<open>Bone.get_worldspace_positions\<close>: the transform first; then the attribute
  \<^verbatim>\<open>multiply_point\<close> is looked up on it, once for each of the two points.
\<close>

definition Bone_get_worldspace_positions :: "Bone \<Rightarrow> error + (Vec2 \<times> Vec2)" where
  "Bone_get_worldspace_positions self =
     (case get_transform_world self of
        Inl e \<Rightarrow> Inl e
      | Inr transform \<Rightarrow>
          (case map_of T2D_point_methods ''multiply_point'' of
             None \<Rightarrow> Inl (AttributeError ''multiply_point'')
           | Some multiply_point \<Rightarrow>
               (case multiply_point transform (Vec2 0 0) of
                  Inl e \<Rightarrow> Inl e
                | Inr start \<Rightarrow>
                    (case multiply_point transform (Vec2 (Bone_length self) 0) of
                       Inl e \<Rightarrow> Inl e
                     | Inr end_point \<Rightarrow> Inr (start, end_point)))))"

section \<open>armature.py: Armature\<close>

text \<open>
  The armature's only state is the dict \<^verbatim>\<open>_bones\<close>, kept in insertion order.
\<close>

record Armature =
  bones :: "(string \<times> Bone) list"

text \<open>
  \<^verbatim>\<open>add_bone\<close>, the body of the method: the two checks in the source's order (the second
  one only concerns a bone whose \<^verbatim>\<open>parent\<close> is not \<^verbatim>\<open>None\<close>), then the insertion under a key
  that the first check has shown to be new.
\<close>

definition add_bone :: "Armature \<Rightarrow> Bone \<Rightarrow> error + Armature" where
  "add_bone self bone =
     (if Bone_name bone \<in> set (map fst (bones self))
      then Inl (ValueError (''Bone with name '' @ Bone_name bone @ '' already exists.''))
      else (case Bone_parent bone of
              None \<Rightarrow> Inr (self\<lparr>bones := bones self @ [(Bone_name bone, bone)]\<rparr>)
            | Some parent \<Rightarrow>
                (if Bone_name parent \<notin> set (map fst (bones self))
                 then Inl (KeyError (''Bone with name '' @ Bone_name parent
                                      @ '' does not exist in the armature.''))
                 else Inr (self\<lparr>bones := bones self @ [(Bone_name bone, bone)]\<rparr>))))"

text \<open>\<^verbatim>\<open>Armature.get_worldspace_positions\<close>, the body: the dict comprehension over the bones.\<close>

fun positions_of :: "(string \<times> Bone) list \<Rightarrow> error + (string \<times> (Vec2 \<times> Vec2)) list" where
  "positions_of [] = Inr []"
| "positions_of ((name, bone) # rest) =
     (case Bone_get_worldspace_positions bone of
        Inl e \<Rightarrow> Inl e
      | Inr ends \<Rightarrow>
          (case positions_of rest of
             Inl e \<Rightarrow> Inl e
           | Inr others \<Rightarrow> Inr ((name, ends) # others)))"

definition Armature_get_worldspace_positions ::
    "Armature \<Rightarrow> error + (string \<times> (Vec2 \<times> Vec2)) list" where
  "Armature_get_worldspace_positions self = positions_of (bones self)"

text \<open>
  What an attribute access on an armature can yield: the dict, a bone, or a method of the
  class bound to the instance.
\<close>

datatype attribute =
    Dict "(string \<times> Bone) list"
  | BoneValue Bone
  | BoundMethod string

text \<open>
  \<^verbatim>\<open>object.__getattribute__\<close> on an armature, the default lookup: the instance holds
  \<^verbatim>\<open>_bones\<close>, the class body defines the four methods listed. (Names inherited from
  \<^verbatim>\<open>object\<close> are left out; the source never asks for one.)
\<close>

definition Armature_class_dict :: "string list" where
  "Armature_class_dict =
     [''__init__'', ''add_bone'', ''get_worldspace_positions'', ''__getattribute__'']"

definition object_getattribute :: "Armature \<Rightarrow> string \<Rightarrow> error + attribute" where
  "object_getattribute self name =
     (if name = ''_bones'' then Inr (Dict (bones self))
      else if name \<in> set Armature_class_dict then Inr (BoundMethod name)
      else Inl (AttributeError name))"

text \<open>
  \<^verbatim>\<open>Armature.__getattribute__\<close>. Python calls it for every attribute access on an instance,
  the lookup of a method before a call included. A name that starts with an underscore goes
  to the default lookup; any other name is a key into \<^verbatim>\<open>_bones\<close>, and a missing key raises
  \<^verbatim>\<open>KeyError\<close>.
\<close>

definition startswith :: "string \<Rightarrow> string \<Rightarrow> bool" where
  "startswith s prefix \<longleftrightarrow> take (length prefix) s = prefix"

definition Armature_getattribute :: "Armature \<Rightarrow> string \<Rightarrow> error + attribute" where
  "Armature_getattribute self name =
     (if startswith name ''_'' then object_getattribute self name
      else (case map_of (bones self) name of
              None \<Rightarrow> Inl (KeyError name)
            | Some bone \<Rightarrow> Inr (BoneValue bone)))"

text \<open>
  The call \<^verbatim>\<open>self.add_bone(bone)\<close> on an instance: the attribute is looked up, then called.
  A bound method runs the body; a bone or a dict is not callable.
\<close>

definition call_add_bone :: "Armature \<Rightarrow> Bone \<Rightarrow> error + Armature" where
  "call_add_bone self bone =
     (case Armature_getattribute self ''add_bone'' of
        Inl e \<Rightarrow> Inl e
      | Inr (BoundMethod m) \<Rightarrow> add_bone self bone
      | Inr (BoneValue b) \<Rightarrow> Inl (TypeError ''Bone object is not callable'')
      | Inr (Dict d) \<Rightarrow> Inl (TypeError ''dict object is not callable''))"

text \<open>The call \<^verbatim>\<open>armature.get_worldspace_positions()\<close> on an instance, in the same way.\<close>

definition call_get_worldspace_positions ::
    "Armature \<Rightarrow> error + (string \<times> (Vec2 \<times> Vec2)) list" where
  "call_get_worldspace_positions self =
     (case Armature_getattribute self ''get_worldspace_positions'' of
        Inl e \<Rightarrow> Inl e
      | Inr (BoundMethod m) \<Rightarrow> Armature_get_worldspace_positions self
      | Inr (BoneValue b) \<Rightarrow> Inl (TypeError ''Bone object is not callable'')
      | Inr (Dict d) \<Rightarrow> Inl (TypeError ''dict object is not callable''))"

text \<open>
  \<^verbatim>\<open>Armature.__init__\<close>: the empty dict, then \<^verbatim>\<open>self.add_bone(bone)\<close> for each bone of the
  list, when a list is given. The first call that raises ends the construction.
\<close>

fun add_each :: "Armature \<Rightarrow> Bone list \<Rightarrow> error + Armature" where
  "add_each self [] = Inr self"
| "add_each self (bone # rest) =
     (case call_add_bone self bone of
        Inl e \<Rightarrow> Inl e
      | Inr self' \<Rightarrow> add_each self' rest)"

definition Armature_init :: "Bone list option \<Rightarrow> error + Armature" where
  "Armature_init bones_arg =
     (case bones_arg of
        None \<Rightarrow> Inr \<lparr> bones = [] \<rparr>
      | Some bone_list \<Rightarrow> add_each \<lparr> bones = [] \<rparr> bone_list)"

section \<open>hand_movement.py: HandShape\<close>

text \<open>
  The dataclass of the source, field for field and in the source's order. Angles are in
  degrees, lengths and positions in millimetres, contractions are fractions of a length.
\<close>

record HandShape =
  wrist_inwards_bound :: real
  wrist_inwards_difficulty :: real
  wrist_outwards_bound :: real
  wrist_outwards_difficulty :: real
  wrist_rest_position :: real
  thumb_root_position :: "real \<times> real"
  index_root_position :: "real \<times> real"
  middle_root_position :: "real \<times> real"
  ring_root_position :: "real \<times> real"
  pinky_root_position :: "real \<times> real"
  thumb_length :: real
  index_length :: real
  middle_length :: real
  ring_length :: real
  pinky_length :: real
  index_max_splay :: real
  index_splay_cost :: real
  middle_max_splay :: real
  middle_splay_cost :: real
  ring_max_splay :: real
  ring_splay_cost :: real
  pinky_max_splay :: real
  pinky_splay_cost :: real
  thumb_down_splay_bound :: real
  thumb_up_splay_bound :: real
  thumb_rest_position :: real
  thumb_splay_cost :: real
  index_max_contraction :: real
  index_default_contraction :: real
  index_contraction_cost :: real
  middle_max_contraction :: real
  middle_default_contraction :: real
  middle_contraction_cost :: real
  ring_max_contraction :: real
  ring_default_contraction :: real
  ring_contraction_cost :: real
  pinky_max_contraction :: real
  pinky_default_contraction :: real
  pinky_contraction_cost :: real
  thumb_max_contraction :: real
  thumb_default_contraction :: real
  thumb_contraction_cost :: real

text \<open>The class attributes, that is the default value the source gives each field.\<close>

definition HandShape_defaults :: HandShape where
  "HandShape_defaults = \<lparr>
     wrist_inwards_bound = 15,
     wrist_inwards_difficulty = 1,
     wrist_outwards_bound = 30,
     wrist_outwards_difficulty = 0.5,
     wrist_rest_position = 10,
     thumb_root_position = (40, 20),
     index_root_position = (19, 80),
     middle_root_position = (3, 82),
     ring_root_position = (-16, 80),
     pinky_root_position = (-30, 78),
     thumb_length = 45,
     index_length = 70,
     middle_length = 73,
     ring_length = 71,
     pinky_length = 65,
     index_max_splay = 30,
     index_splay_cost = 0.3,
     middle_max_splay = 20,
     middle_splay_cost = 0.35,
     ring_max_splay = 23,
     ring_splay_cost = 0.4,
     pinky_max_splay = 43,
     pinky_splay_cost = 0.2,
     thumb_down_splay_bound = 90,
     thumb_up_splay_bound = 20,
     thumb_rest_position = 45,
     thumb_splay_cost = 0.25,
     index_max_contraction = 0.5,
     index_default_contraction = 0.8,
     index_contraction_cost = 0.3,
     middle_max_contraction = 0.55,
     middle_default_contraction = 0.8,
     middle_contraction_cost = 0.38,
     ring_max_contraction = 0.6,
     ring_default_contraction = 0.8,
     ring_contraction_cost = 0.43,
     pinky_max_contraction = 0.45,
     pinky_default_contraction = 0.8,
     pinky_contraction_cost = 0.27,
     thumb_max_contraction = 0.5,
     thumb_default_contraction = 0.8,
     thumb_contraction_cost = 0.2 \<rparr>"

text \<open>
  \<^verbatim>\<open>_assert_integrity\<close>: the loop over the zipped lists, in the source's order (index, middle,
  ring, pinky, thumb); the first pair with \<^verbatim>\<open>default > max\<close> fails the assertion.
\<close>

fun assert_contractions :: "(real \<times> real) list \<Rightarrow> error + unit" where
  "assert_contractions [] = Inr ()"
| "assert_contractions ((default_contraction, max_contraction) # rest) =
     (if default_contraction \<le> max_contraction then assert_contractions rest
      else Inl (AssertionError ''default contraction cannot be greater than max contraction''))"

definition assert_integrity :: "HandShape \<Rightarrow> error + unit" where
  "assert_integrity self =
     assert_contractions
       (zip [index_default_contraction self, middle_default_contraction self,
             ring_default_contraction self, pinky_default_contraction self,
             thumb_default_contraction self]
            [index_max_contraction self, middle_max_contraction self,
             ring_max_contraction self, pinky_max_contraction self,
             thumb_max_contraction self])"

text \<open>
  \<^verbatim>\<open>object.__init__\<close>, reached through \<^verbatim>\<open>super().__init__(*args, **kwargs)\<close> from a class that
  overrides \<^verbatim>\<open>__init__\<close>: it accepts no argument beyond the instance.
\<close>

definition object_init :: "'a list \<Rightarrow> (string \<times> 'a) list \<Rightarrow> error + unit" where
  "object_init args kwargs =
     (if args \<noteq> [] \<or> kwargs \<noteq> []
      then Inl (TypeError ''object.__init__() takes exactly one argument (the instance to initialize)'')
      else Inr ())"

text \<open>
  \<^verbatim>\<open>HandShape.__init__\<close>. The class body defines \<^verbatim>\<open>__init__\<close> itself, and the dataclass decorator
  does not replace a method the class body defines; so this is the constructor that runs.
  It stores nothing on the instance: every field read on \<^verbatim>\<open>self\<close> finds the class attribute,
  and a construction that returned would return \<open>HandShape_defaults\<close>.
\<close>

definition HandShape_init :: "'a list \<Rightarrow> (string \<times> 'a) list \<Rightarrow> error + HandShape" where
  "HandShape_init args kwargs =
     (case object_init args kwargs of
        Inl e \<Rightarrow> Inl e
      | Inr _ \<Rightarrow>
          (case assert_integrity HandShape_defaults of
             Inl e \<Rightarrow> Inl e
           | Inr _ \<Rightarrow> Inr HandShape_defaults))"

section \<open>hand_movement.py: HandPosition and its cost\<close>

record HandPosition =
  wrist_rotation :: real
  thumb_splay :: real
  thumb_extension :: real
  index_splay :: real
  index_extension :: real
  middle_splay :: real
  middle_extension :: real
  ring_splay :: real
  ring_extension :: real
  pinky_splay :: real
  pinky_extension :: real

text \<open>The defaults of the dataclass: every splay 0, every extension 1, wrist rotation 0.\<close>

definition HandPosition_defaults :: HandPosition where
  "HandPosition_defaults = \<lparr>
     wrist_rotation = 0,
     thumb_splay = 0, thumb_extension = 1,
     index_splay = 0, index_extension = 1,
     middle_splay = 0, middle_extension = 1,
     ring_splay = 0, ring_extension = 1,
     pinky_splay = 0, pinky_extension = 1 \<rparr>"

text \<open>What \<^verbatim>\<open>calculate_cost\<close> returns: a float, or \<^verbatim>\<open>math.inf\<close>.\<close>

datatype cost = Finite real | math_inf

text \<open>
  The condition of the first \<^verbatim>\<open>if\<close> of \<^verbatim>\<open>calculate_cost\<close>, its twenty-two comparisons in the
  source's order.
\<close>

definition out_of_bounds :: "HandPosition \<Rightarrow> HandShape \<Rightarrow> bool" where
  "out_of_bounds self hand_shape \<longleftrightarrow>
     wrist_rotation self < - wrist_inwards_bound hand_shape \<or>
     wrist_rotation self > wrist_outwards_bound hand_shape \<or>
     thumb_splay self < - thumb_down_splay_bound hand_shape \<or>
     thumb_splay self > thumb_up_splay_bound hand_shape \<or>
     index_splay self < - index_max_splay hand_shape \<or>
     index_splay self > 0 \<or>
     middle_splay self < - middle_max_splay hand_shape \<or>
     middle_splay self > 0 \<or>
     ring_splay self < - ring_max_splay hand_shape \<or>
     ring_splay self > 0 \<or>
     pinky_splay self < - pinky_max_splay hand_shape \<or>
     pinky_splay self > 0 \<or>
     thumb_extension self < thumb_max_contraction hand_shape \<or>
     thumb_extension self > 1 \<or>
     index_extension self < index_max_contraction hand_shape \<or>
     index_extension self > 1 \<or>
     middle_extension self < middle_max_contraction hand_shape \<or>
     middle_extension self > 1 \<or>
     ring_extension self < ring_max_contraction hand_shape \<or>
     ring_extension self > 1 \<or>
     pinky_extension self < pinky_max_contraction hand_shape \<or>
     pinky_extension self > 1"

text \<open>
  The eleven terms the source adds to \<^verbatim>\<open>total_cost\<close>, in its order, starting from 0.
\<close>

definition weighted_deviation :: "HandPosition \<Rightarrow> HandShape \<Rightarrow> real" where
  "weighted_deviation self hand_shape =
     0
     + (if wrist_rotation self < wrist_rest_position hand_shape
        then \<bar>wrist_rotation self - wrist_rest_position hand_shape\<bar> * wrist_inwards_difficulty hand_shape
        else \<bar>wrist_rotation self - wrist_rest_position hand_shape\<bar> * wrist_outwards_difficulty hand_shape)
     + \<bar>thumb_splay self - thumb_rest_position hand_shape\<bar> * thumb_splay_cost hand_shape
     + \<bar>thumb_extension self - thumb_default_contraction hand_shape\<bar> * thumb_contraction_cost hand_shape
     + \<bar>index_splay self - index_max_splay hand_shape\<bar> * index_splay_cost hand_shape
     + \<bar>index_extension self - index_default_contraction hand_shape\<bar> * index_contraction_cost hand_shape
     + \<bar>middle_splay self - middle_max_splay hand_shape\<bar> * middle_splay_cost hand_shape
     + \<bar>middle_extension self - middle_default_contraction hand_shape\<bar> * middle_contraction_cost hand_shape
     + \<bar>ring_splay self - ring_max_splay hand_shape\<bar> * ring_splay_cost hand_shape
     + \<bar>ring_extension self - ring_default_contraction hand_shape\<bar> * ring_contraction_cost hand_shape
     + \<bar>pinky_splay self - pinky_max_splay hand_shape\<bar> * pinky_splay_cost hand_shape
     + \<bar>pinky_extension self - pinky_default_contraction hand_shape\<bar> * pinky_contraction_cost hand_shape"

definition calculate_cost :: "HandPosition \<Rightarrow> HandShape \<Rightarrow> cost" where
  "calculate_cost self hand_shape =
     (if out_of_bounds self hand_shape then math_inf
      else Finite (weighted_deviation self hand_shape))"

section \<open>hand_movement.py: Hands and the fingertips\<close>

record Hands =
  left_shape :: HandShape
  right_shape :: HandShape

definition Hands_init :: "HandShape \<Rightarrow> Hands" where
  "Hands_init shape = \<lparr> left_shape = shape, right_shape = shape \<rparr>"

text \<open>
  The tip of one digit before the wrist rotation: the root position plus the offset
  \<^verbatim>\<open>(sin(radians(splay)) * length * extension, cos(radians(splay)) * length * extension)\<close>.
  The source writes these three lines out five times, once per digit.
\<close>

definition tip_before_rotation :: "real \<times> real \<Rightarrow> real \<Rightarrow> real \<Rightarrow> real \<Rightarrow> real \<times> real" where
  "tip_before_rotation root_position splay length_mm extension =
     (let tip_offset_x = sin (radians splay) * length_mm * extension;
          tip_offset_y = cos (radians splay) * length_mm * extension
      in (fst root_position + tip_offset_x, snd root_position + tip_offset_y))"

text \<open>
  The body of the loop over the five tips. The three assignments are kept in the source's
  order, and each \<open>x\<close> and \<open>y\<close> on a right-hand side is the variable's value at that line:
  the second assignment reads the \<open>x\<close> that the first has just overwritten.
\<close>

definition rotate_and_flip :: "bool \<Rightarrow> real \<Rightarrow> real \<times> real \<Rightarrow> real \<times> real" where
  "rotate_and_flip right_hand wrist_rotation_amount pos =
     (let x = fst pos; y = snd pos;
          x = x * cos (radians wrist_rotation_amount) - y * sin (radians wrist_rotation_amount);
          y = x * sin (radians wrist_rotation_amount) + y * cos (radians wrist_rotation_amount);
          x = (if right_hand then x else - x)
      in (x, y))"

definition get_fingertip_coords :: "Hands \<Rightarrow> bool \<Rightarrow> HandPosition \<Rightarrow> (real \<times> real) list" where
  "get_fingertip_coords self right_hand pose =
     (let hand_shape = (if right_hand then right_shape self else left_shape self);
          thumbpos = tip_before_rotation (thumb_root_position hand_shape) (thumb_splay pose)
                       (thumb_length hand_shape) (thumb_extension pose);
          indexpos = tip_before_rotation (index_root_position hand_shape) (index_splay pose)
                       (index_length hand_shape) (index_extension pose);
          middlepos = tip_before_rotation (middle_root_position hand_shape) (middle_splay pose)
                       (middle_length hand_shape) (middle_extension pose);
          ringpos = tip_before_rotation (ring_root_position hand_shape) (ring_splay pose)
                       (ring_length hand_shape) (ring_extension pose);
          pinkypos = tip_before_rotation (pinky_root_position hand_shape) (pinky_splay pose)
                       (pinky_length hand_shape) (pinky_extension pose);
          wrist_rotation_amount = wrist_rotation pose
      in map (rotate_and_flip right_hand wrist_rotation_amount)
           [thumbpos, indexpos, middlepos, ringpos, pinkypos])"

section \<open>The specification's side\<close>

text \<open>
  The definitions of this section follow the words of the specification, not the source;
  the theorems below compare them with the functions above.
\<close>

text \<open>
  The standard rotation about (0, 0), angle in degrees: both results are computed from the
  original \<open>x\<close> and \<open>y\<close>.
\<close>

definition spec_rotate_deg :: "real \<Rightarrow> real \<times> real \<Rightarrow> real \<times> real" where
  "spec_rotate_deg angle pos =
     (fst pos * cos (radians angle) - snd pos * sin (radians angle),
      fst pos * sin (radians angle) + snd pos * cos (radians angle))"

text \<open>
  The five tips as the specification describes them for the right hand: the standard
  rotation by the wrist angle, applied to each tip position before rotation.
\<close>

definition spec_fingertips :: "HandShape \<Rightarrow> HandPosition \<Rightarrow> (real \<times> real) list" where
  "spec_fingertips shape pose =
     map (spec_rotate_deg (wrist_rotation pose))
       [tip_before_rotation (thumb_root_position shape) (thumb_splay pose)
          (thumb_length shape) (thumb_extension pose),
        tip_before_rotation (index_root_position shape) (index_splay pose)
          (index_length shape) (index_extension pose),
        tip_before_rotation (middle_root_position shape) (middle_splay pose)
          (middle_length shape) (middle_extension pose),
        tip_before_rotation (ring_root_position shape) (ring_splay pose)
          (ring_length shape) (ring_extension pose),
        tip_before_rotation (pinky_root_position shape) (pinky_splay pose)
          (pinky_length shape) (pinky_extension pose)]"

text \<open>
  The rest pose of a shape: wrist at the rest rotation, thumb at its rest splay and default
  contraction, each other finger at its maximum splay and default contraction.
\<close>

definition rest_pose :: "HandShape \<Rightarrow> HandPosition" where
  "rest_pose shape = \<lparr>
     wrist_rotation = wrist_rest_position shape,
     thumb_splay = thumb_rest_position shape,
     thumb_extension = thumb_default_contraction shape,
     index_splay = index_max_splay shape,
     index_extension = index_default_contraction shape,
     middle_splay = middle_max_splay shape,
     middle_extension = middle_default_contraction shape,
     ring_splay = ring_max_splay shape,
     ring_extension = ring_default_contraction shape,
     pinky_splay = pinky_max_splay shape,
     pinky_extension = pinky_default_contraction shape \<rparr>"

text \<open>
  The eleven scalar checks of the feasibility gate: the wrist rotation in
  \<open>[- inward bound, outward bound]\<close>, the thumb splay in \<open>[- down bound, up bound]\<close>, the
  splay of each other finger in \<open>[- max splay, 0]\<close>, each extension in
  \<open>[max contraction, 1]\<close>. A check holds when the value is in its closed interval.
\<close>

definition in_range :: "real \<Rightarrow> real \<Rightarrow> real \<Rightarrow> bool" where
  "in_range lo hi v \<longleftrightarrow> lo \<le> v \<and> v \<le> hi"

definition wrist_check :: "HandPosition \<Rightarrow> HandShape \<Rightarrow> bool" where
  "wrist_check pose shape =
     in_range (- wrist_inwards_bound shape) (wrist_outwards_bound shape) (wrist_rotation pose)"

definition other_ten_checks :: "HandPosition \<Rightarrow> HandShape \<Rightarrow> bool list" where
  "other_ten_checks pose shape =
     [in_range (- thumb_down_splay_bound shape) (thumb_up_splay_bound shape) (thumb_splay pose),
      in_range (- index_max_splay shape) 0 (index_splay pose),
      in_range (- middle_max_splay shape) 0 (middle_splay pose),
      in_range (- ring_max_splay shape) 0 (ring_splay pose),
      in_range (- pinky_max_splay shape) 0 (pinky_splay pose),
      in_range (thumb_max_contraction shape) 1 (thumb_extension pose),
      in_range (index_max_contraction shape) 1 (index_extension pose),
      in_range (middle_max_contraction shape) 1 (middle_extension pose),
      in_range (ring_max_contraction shape) 1 (ring_extension pose),
      in_range (pinky_max_contraction shape) 1 (pinky_extension pose)]"

definition scalar_checks :: "HandPosition \<Rightarrow> HandShape \<Rightarrow> bool list" where
  "scalar_checks pose shape = wrist_check pose shape # other_ten_checks pose shape"

definition some_check_fails :: "bool list \<Rightarrow> bool" where
  "some_check_fails checks \<longleftrightarrow> False \<in> set checks"

text \<open>A cost that is \<open>+\<infinity>\<close> or a real number that is not negative.\<close>

definition nonneg_or_inf :: "cost \<Rightarrow> bool" where
  "nonneg_or_inf c = (case c of math_inf \<Rightarrow> True | Finite r \<Rightarrow> 0 \<le> r)"

text \<open>The twelve weights of the cost: none of them negative.\<close>

definition weights_nonneg :: "HandShape \<Rightarrow> bool" where
  "weights_nonneg shape \<longleftrightarrow>
     0 \<le> wrist_inwards_difficulty shape \<and> 0 \<le> wrist_outwards_difficulty shape \<and>
     0 \<le> thumb_splay_cost shape \<and> 0 \<le> thumb_contraction_cost shape \<and>
     0 \<le> index_splay_cost shape \<and> 0 \<le> index_contraction_cost shape \<and>
     0 \<le> middle_splay_cost shape \<and> 0 \<le> middle_contraction_cost shape \<and>
     0 \<le> ring_splay_cost shape \<and> 0 \<le> ring_contraction_cost shape \<and>
     0 \<le> pinky_splay_cost shape \<and> 0 \<le> pinky_contraction_cost shape"

text \<open>The twelve weights of the cost: all of them positive.\<close>

definition weights_positive :: "HandShape \<Rightarrow> bool" where
  "weights_positive shape \<longleftrightarrow>
     0 < wrist_inwards_difficulty shape \<and> 0 < wrist_outwards_difficulty shape \<and>
     0 < thumb_splay_cost shape \<and> 0 < thumb_contraction_cost shape \<and>
     0 < index_splay_cost shape \<and> 0 < index_contraction_cost shape \<and>
     0 < middle_splay_cost shape \<and> 0 < middle_contraction_cost shape \<and>
     0 < ring_splay_cost shape \<and> 0 < ring_contraction_cost shape \<and>
     0 < pinky_splay_cost shape \<and> 0 < pinky_contraction_cost shape"

section \<open>Vec2: the only failure is division by zero\<close>

text \<open>
  C10. Dividing a vector by zero ends in \<open>ZeroDivisionError\<close>, whatever the vector; dividing
  by anything else returns the componentwise quotient. Addition, subtraction, scalar
  multiplication, rotation, dot product and the two unit-vector constructors have no
  failing branch at all: each is a closed formula over the reals, given here in full.
\<close>

theorem Vec2_only_division_by_zero_fails:
  "Vec2_truediv v 0 = Inl ZeroDivisionError
   \<and> (c \<noteq> 0 \<longrightarrow> Vec2_truediv v c = Inr (Vec2 (Vec2_x v / c) (Vec2_y v / c)))
   \<and> Vec2_add v w = Vec2 (Vec2_x v + Vec2_x w) (Vec2_y v + Vec2_y w)
   \<and> Vec2_sub v w = Vec2 (Vec2_x v - Vec2_x w) (Vec2_y v - Vec2_y w)
   \<and> Vec2_mul v c = Vec2 (Vec2_x v * c) (Vec2_y v * c)
   \<and> Vec2_rotate v a = Vec2 (Vec2_x v * cos a - Vec2_y v * sin a)
                              (Vec2_x v * sin a + Vec2_y v * cos a)
   \<and> Vec2_dot v w = Vec2_x v * Vec2_x w + Vec2_y v * Vec2_y w
   \<and> unit_vector a = Vec2 (cos a) (sin a)
   \<and> unit_vector_deg a = Vec2 (cos (a * pi / 180)) (sin (a * pi / 180))"
  by (simp add: Vec2_truediv_def float_truediv_def Vec2_add_def Vec2_sub_def Vec2_mul_def
      Vec2_rotate_def Vec2_dot_def unit_vector_def unit_vector_deg_def radians_def)

theorem Vec2_only_division_by_zero_fails_witness:
  "Vec2_truediv (Vec2 3 4) 0 = Inl ZeroDivisionError
   \<and> Vec2_truediv (Vec2 3 4) 2 = Inr (Vec2 (3 / 2) 2)
   \<and> Vec2_mul (Vec2 3 4) 2 = Vec2 6 8
   \<and> Vec2_dot (Vec2 3 4) (Vec2 1 2) = 11"
  using Vec2_only_division_by_zero_fails [of "Vec2 3 4" 2 "Vec2 1 2" 0]
  by simp

section \<open>HandShape: construction\<close>

lemma defaults_fail_integrity:
  "assert_integrity HandShape_defaults =
     Inl (AssertionError ''default contraction cannot be greater than max contraction'')"
  by (simp add: assert_integrity_def HandShape_defaults_def)

text \<open>
  C2. Constructing a HandShape never returns. Without arguments the integrity assertion
  fails on the class defaults, where every digit has default contraction 0.8 above a maximum
  contraction of at most 0.6; with any positional or keyword argument the delegation to
  \<^verbatim>\<open>object.__init__\<close> raises \<^verbatim>\<open>TypeError\<close> before the assertion is reached.
\<close>

theorem HandShape_init_always_raises:
  "HandShape_init args kwargs =
     (if args = [] \<and> kwargs = []
      then Inl (AssertionError ''default contraction cannot be greater than max contraction'')
      else Inl (TypeError ''object.__init__() takes exactly one argument (the instance to initialize)''))
   \<and> index_default_contraction HandShape_defaults = 0.8
   \<and> middle_default_contraction HandShape_defaults = 0.8
   \<and> ring_default_contraction HandShape_defaults = 0.8
   \<and> pinky_default_contraction HandShape_defaults = 0.8
   \<and> thumb_default_contraction HandShape_defaults = 0.8
   \<and> index_max_contraction HandShape_defaults \<le> 0.6
   \<and> middle_max_contraction HandShape_defaults \<le> 0.6
   \<and> ring_max_contraction HandShape_defaults \<le> 0.6
   \<and> pinky_max_contraction HandShape_defaults \<le> 0.6
   \<and> thumb_max_contraction HandShape_defaults \<le> 0.6"
proof -
  have "HandShape_init args kwargs =
     (if args = [] \<and> kwargs = []
      then Inl (AssertionError ''default contraction cannot be greater than max contraction'')
      else Inl (TypeError ''object.__init__() takes exactly one argument (the instance to initialize)''))"
    by (simp add: HandShape_init_def object_init_def defaults_fail_integrity)
  then show ?thesis
    by (simp add: HandShape_defaults_def)
qed

theorem HandShape_init_always_raises_witness:
  "HandShape_init ([] :: real list) [] =
     Inl (AssertionError ''default contraction cannot be greater than max contraction'')
   \<and> HandShape_init [] [(''index_max_contraction'', 0.9 :: real)] =
     Inl (TypeError ''object.__init__() takes exactly one argument (the instance to initialize)'')
   \<and> HandShape_init [15 :: real] [] =
     Inl (TypeError ''object.__init__() takes exactly one argument (the instance to initialize)'')"
  using HandShape_init_always_raises [of "[] :: real list" "[]"]
        HandShape_init_always_raises [of "[] :: real list" "[(''index_max_contraction'', 0.9)]"]
        HandShape_init_always_raises [of "[15 :: real]" "[]"]
  by simp

section \<open>The cost of a pose\<close>

lemma gate_is_scalar_checks:
  "out_of_bounds pose shape \<longleftrightarrow> some_check_fails (scalar_checks pose shape)"
  unfolding out_of_bounds_def some_check_fails_def scalar_checks_def other_ten_checks_def
    wrist_check_def in_range_def
  by (auto simp: not_le)

text \<open>For every pose and shape, the cost is \<open>+\<infinity>\<close> exactly when one of the eleven checks fails.\<close>

lemma cost_inf_iff_check_fails:
  "calculate_cost pose shape = math_inf \<longleftrightarrow> some_check_fails (scalar_checks pose shape)"
  by (simp add: calculate_cost_def gate_is_scalar_checks)

lemma other_ten_checks_ignore_wrist:
  "other_ten_checks (pose\<lparr>wrist_rotation := w\<rparr>) shape = other_ten_checks pose shape"
  by (simp add: other_ten_checks_def)

lemma weighted_deviation_nonneg:
  "weights_nonneg shape \<Longrightarrow> 0 \<le> weighted_deviation pose shape"
  unfolding weights_nonneg_def weighted_deviation_def
  by (auto intro!: add_nonneg_nonneg mult_nonneg_nonneg)

lemma weighted_deviation_rest_pose:
  "weighted_deviation (rest_pose shape) shape = 0"
  by (simp add: weighted_deviation_def rest_pose_def)

text \<open>
  With positive weights the eleven terms of the sum are non-negative and each vanishes only
  when its field is at its reference value; so the sum vanishes only at the rest pose.
\<close>

lemma weighted_deviation_zero_fields:
  assumes pos: "weights_positive shape" and zero: "weighted_deviation pose shape = 0"
  shows "pose = rest_pose shape"
proof -
  let ?w = "if wrist_rotation pose < wrist_rest_position shape
        then \<bar>wrist_rotation pose - wrist_rest_position shape\<bar> * wrist_inwards_difficulty shape
        else \<bar>wrist_rotation pose - wrist_rest_position shape\<bar> * wrist_outwards_difficulty shape"
  let ?ts = "\<bar>thumb_splay pose - thumb_rest_position shape\<bar> * thumb_splay_cost shape"
  let ?te = "\<bar>thumb_extension pose - thumb_default_contraction shape\<bar> * thumb_contraction_cost shape"
  let ?is = "\<bar>index_splay pose - index_max_splay shape\<bar> * index_splay_cost shape"
  let ?ie = "\<bar>index_extension pose - index_default_contraction shape\<bar> * index_contraction_cost shape"
  let ?ms = "\<bar>middle_splay pose - middle_max_splay shape\<bar> * middle_splay_cost shape"
  let ?me = "\<bar>middle_extension pose - middle_default_contraction shape\<bar> * middle_contraction_cost shape"
  let ?rs = "\<bar>ring_splay pose - ring_max_splay shape\<bar> * ring_splay_cost shape"
  let ?re = "\<bar>ring_extension pose - ring_default_contraction shape\<bar> * ring_contraction_cost shape"
  let ?ps = "\<bar>pinky_splay pose - pinky_max_splay shape\<bar> * pinky_splay_cost shape"
  let ?pe = "\<bar>pinky_extension pose - pinky_default_contraction shape\<bar> * pinky_contraction_cost shape"
  have nonneg: "0 \<le> ?w" "0 \<le> ?ts" "0 \<le> ?te" "0 \<le> ?is" "0 \<le> ?ie" "0 \<le> ?ms"
    "0 \<le> ?me" "0 \<le> ?rs" "0 \<le> ?re" "0 \<le> ?ps" "0 \<le> ?pe"
    using pos by (simp_all add: weights_positive_def)
  have sum: "0 + ?w + ?ts + ?te + ?is + ?ie + ?ms + ?me + ?rs + ?re + ?ps + ?pe = 0"
    using zero by (simp add: weighted_deviation_def)
  have each: "?w = 0" "?ts = 0" "?te = 0" "?is = 0" "?ie = 0" "?ms = 0"
    "?me = 0" "?rs = 0" "?re = 0" "?ps = 0" "?pe = 0"
    using nonneg sum by linarith+
  have "wrist_rotation pose = wrist_rest_position shape"
    using each(1) pos by (simp add: weights_positive_def split: if_splits)
  moreover have "thumb_splay pose = thumb_rest_position shape"
    using each(2) pos by (simp add: weights_positive_def)
  moreover have "thumb_extension pose = thumb_default_contraction shape"
    using each(3) pos by (simp add: weights_positive_def)
  moreover have "index_splay pose = index_max_splay shape"
    using each(4) pos by (simp add: weights_positive_def)
  moreover have "index_extension pose = index_default_contraction shape"
    using each(5) pos by (simp add: weights_positive_def)
  moreover have "middle_splay pose = middle_max_splay shape"
    using each(6) pos by (simp add: weights_positive_def)
  moreover have "middle_extension pose = middle_default_contraction shape"
    using each(7) pos by (simp add: weights_positive_def)
  moreover have "ring_splay pose = ring_max_splay shape"
    using each(8) pos by (simp add: weights_positive_def)
  moreover have "ring_extension pose = ring_default_contraction shape"
    using each(9) pos by (simp add: weights_positive_def)
  moreover have "pinky_splay pose = pinky_max_splay shape"
    using each(10) pos by (simp add: weights_positive_def)
  moreover have "pinky_extension pose = pinky_default_contraction shape"
    using each(11) pos by (simp add: weights_positive_def)
  ultimately show ?thesis
    by (simp add: rest_pose_def)
qed

text \<open>
  The docstrings of the pose give the ring and the pinky no positive splay, and the gate
  agrees; the rest pose puts both at their maximum splay.
\<close>

lemma rest_pose_rejected_by_ring_or_pinky:
  "0 < ring_max_splay shape \<or> 0 < pinky_max_splay shape \<Longrightarrow>
   calculate_cost (rest_pose shape) shape = math_inf"
  by (auto simp: calculate_cost_def out_of_bounds_def rest_pose_def)

text \<open>
  C5, as amended. For every shape, the rest pose is the zero of the weighted sum of
  deviations that \<^verbatim>\<open>calculate_cost\<close> returns for a pose that passes its feasibility gate: the
  sum is 0 at the rest pose (wrist at the rest rotation, thumb at its rest splay and default
  contraction, each other finger at its maximum splay and default contraction); it is
  nowhere smaller when the twelve weights are not negative; and it is 0 at no other pose when
  they are positive. \<^verbatim>\<open>calculate_cost\<close> evaluates the gate first: it returns this sum for every
  pose that passes, and \<open>+\<infinity>\<close> for the rest pose whenever the ring or the pinky has a positive
  maximum splay.
\<close>

theorem rest_pose_is_zero_of_weighted_deviation:
  "weighted_deviation (rest_pose shape) shape = 0
   \<and> (weights_nonneg shape \<longrightarrow>
        weighted_deviation (rest_pose shape) shape \<le> weighted_deviation pose shape)
   \<and> (weights_positive shape \<longrightarrow>
        (weighted_deviation pose shape = 0 \<longleftrightarrow> pose = rest_pose shape))
   \<and> (\<not> out_of_bounds pose shape \<longrightarrow>
        calculate_cost pose shape = Finite (weighted_deviation pose shape))
   \<and> (0 < ring_max_splay shape \<or> 0 < pinky_max_splay shape \<longrightarrow>
        calculate_cost (rest_pose shape) shape = math_inf)"
proof (intro conjI impI)
  show "weighted_deviation (rest_pose shape) shape = 0"
    by (rule weighted_deviation_rest_pose)
next
  assume "weights_nonneg shape"
  then show "weighted_deviation (rest_pose shape) shape \<le> weighted_deviation pose shape"
    by (simp add: weighted_deviation_rest_pose weighted_deviation_nonneg)
next
  assume "weights_positive shape"
  then show "weighted_deviation pose shape = 0 \<longleftrightarrow> pose = rest_pose shape"
    using weighted_deviation_zero_fields weighted_deviation_rest_pose by metis
next
  assume "\<not> out_of_bounds pose shape"
  then show "calculate_cost pose shape = Finite (weighted_deviation pose shape)"
    by (simp add: calculate_cost_def)
next
  assume "0 < ring_max_splay shape \<or> 0 < pinky_max_splay shape"
  then show "calculate_cost (rest_pose shape) shape = math_inf"
    by (rule rest_pose_rejected_by_ring_or_pinky)
qed

theorem rest_pose_is_zero_of_weighted_deviation_witness:
  "weights_nonneg HandShape_defaults
   \<and> weights_positive HandShape_defaults
   \<and> \<not> out_of_bounds HandPosition_defaults HandShape_defaults
   \<and> 0 < ring_max_splay HandShape_defaults
   \<and> weighted_deviation (rest_pose HandShape_defaults) HandShape_defaults = 0
   \<and> HandPosition_defaults \<noteq> rest_pose HandShape_defaults
   \<and> weighted_deviation HandPosition_defaults HandShape_defaults \<noteq> 0
   \<and> calculate_cost HandPosition_defaults HandShape_defaults
       = Finite (weighted_deviation HandPosition_defaults HandShape_defaults)
   \<and> calculate_cost (rest_pose HandShape_defaults) HandShape_defaults = math_inf"
proof -
  have pos: "weights_positive HandShape_defaults"
    by (simp add: weights_positive_def HandShape_defaults_def)
  have nonneg: "weights_nonneg HandShape_defaults"
    by (simp add: weights_nonneg_def HandShape_defaults_def)
  have feasible: "\<not> out_of_bounds HandPosition_defaults HandShape_defaults"
    by (simp add: out_of_bounds_def HandPosition_defaults_def HandShape_defaults_def)
  have ring: "0 < ring_max_splay HandShape_defaults"
    by (simp add: HandShape_defaults_def)
  have other: "HandPosition_defaults \<noteq> rest_pose HandShape_defaults"
    by (simp add: HandPosition_defaults_def rest_pose_def HandShape_defaults_def)
  show ?thesis
    using pos nonneg feasible ring other
      rest_pose_is_zero_of_weighted_deviation [of HandShape_defaults HandPosition_defaults]
    by simp
qed

text \<open>
  The claim as first stated, that the cost returned for the rest pose is 0 for every shape,
  fails at the class defaults: there the rest pose has ring splay 23 and pinky splay 43, and
  its cost is \<open>+\<infinity>\<close>, not 0.
\<close>

theorem rest_pose_cost_defaults_counterexample:
  "calculate_cost (rest_pose HandShape_defaults) HandShape_defaults = math_inf
   \<and> calculate_cost (rest_pose HandShape_defaults) HandShape_defaults \<noteq> Finite 0"
  by (simp add: calculate_cost_def out_of_bounds_def rest_pose_def HandShape_defaults_def)

text \<open>
  C6, as amended. Take a pose whose ten checks other than the wrist's hold, and a shape with
  \<open>- wrist_inwards_bound \<le> wrist_outwards_bound\<close>. With the wrist rotation one degree below
  \<open>- wrist_inwards_bound\<close> the cost is \<open>+\<infinity>\<close>; with the wrist rotation at
  \<open>- wrist_inwards_bound\<close> exactly it is a finite number. And for any pose and shape, the
  cost is \<open>+\<infinity>\<close> if and only if at least one of the eleven scalar checks fails.
\<close>

theorem cost_at_wrist_inwards_bound:
  assumes "\<not> some_check_fails (other_ten_checks pose shape)"
    and "- wrist_inwards_bound shape \<le> wrist_outwards_bound shape"
  shows "calculate_cost (pose\<lparr>wrist_rotation := - wrist_inwards_bound shape - 1\<rparr>) shape = math_inf
    \<and> (\<exists>c. calculate_cost (pose\<lparr>wrist_rotation := - wrist_inwards_bound shape\<rparr>) shape = Finite c)
    \<and> (calculate_cost p shape = math_inf \<longleftrightarrow> some_check_fails (scalar_checks p shape))"
proof (intro conjI)
  show "calculate_cost (pose\<lparr>wrist_rotation := - wrist_inwards_bound shape - 1\<rparr>) shape = math_inf"
    by (simp add: calculate_cost_def out_of_bounds_def)
next
  have "\<not> some_check_fails
          (scalar_checks (pose\<lparr>wrist_rotation := - wrist_inwards_bound shape\<rparr>) shape)"
    using assms
    by (simp add: some_check_fails_def scalar_checks_def other_ten_checks_ignore_wrist
        wrist_check_def in_range_def)
  then show "\<exists>c. calculate_cost (pose\<lparr>wrist_rotation := - wrist_inwards_bound shape\<rparr>) shape
               = Finite c"
    by (simp add: calculate_cost_def gate_is_scalar_checks)
next
  show "calculate_cost p shape = math_inf \<longleftrightarrow> some_check_fails (scalar_checks p shape)"
    by (simp add: calculate_cost_def gate_is_scalar_checks)
qed

theorem cost_at_wrist_inwards_bound_witness:
  "\<not> some_check_fails (other_ten_checks HandPosition_defaults HandShape_defaults)
   \<and> - wrist_inwards_bound HandShape_defaults \<le> wrist_outwards_bound HandShape_defaults
   \<and> calculate_cost (HandPosition_defaults\<lparr>wrist_rotation := - 16\<rparr>) HandShape_defaults = math_inf
   \<and> calculate_cost (HandPosition_defaults\<lparr>wrist_rotation := - 15\<rparr>) HandShape_defaults \<noteq> math_inf"
proof -
  have ten: "\<not> some_check_fails (other_ten_checks HandPosition_defaults HandShape_defaults)"
    by (simp add: some_check_fails_def other_ten_checks_def in_range_def
        HandPosition_defaults_def HandShape_defaults_def)
  have wrist: "- wrist_inwards_bound HandShape_defaults \<le> wrist_outwards_bound HandShape_defaults"
    by (simp add: HandShape_defaults_def)
  have bound: "wrist_inwards_bound HandShape_defaults = 15"
    by (simp add: HandShape_defaults_def)
  show ?thesis
    using ten wrist cost_at_wrist_inwards_bound [OF ten wrist, of HandPosition_defaults]
    by (auto simp: bound)
qed

text \<open>
  Without the condition on the two wrist bounds the claim fails: with the outward bound of
  the defaults replaced by -20 the wrist interval \<open>[-15, -20]\<close> is empty, the other ten
  checks hold for the default pose, and the cost at the wrist rotation -15, exactly
  \<open>- wrist_inwards_bound\<close>, is \<open>+\<infinity>\<close>.
\<close>

theorem cost_at_wrist_inwards_bound_counterexample:
  "\<not> some_check_fails
       (other_ten_checks (HandPosition_defaults\<lparr>wrist_rotation := - 15\<rparr>)
          (HandShape_defaults\<lparr>wrist_outwards_bound := - 20\<rparr>))
   \<and> wrist_rotation (HandPosition_defaults\<lparr>wrist_rotation := - 15\<rparr>)
       = - wrist_inwards_bound (HandShape_defaults\<lparr>wrist_outwards_bound := - 20\<rparr>)
   \<and> calculate_cost (HandPosition_defaults\<lparr>wrist_rotation := - 15\<rparr>)
       (HandShape_defaults\<lparr>wrist_outwards_bound := - 20\<rparr>) = math_inf"
  by (simp add: calculate_cost_def out_of_bounds_def other_ten_checks_def in_range_def
      some_check_fails_def HandShape_defaults_def HandPosition_defaults_def)

text \<open>
  C7, as amended. For every shape whose twelve cost weights are not negative and for every
  pose, the cost is \<open>+\<infinity>\<close> or a real number that is not negative.
\<close>

theorem cost_nonneg_or_inf:
  "weights_nonneg shape \<Longrightarrow> nonneg_or_inf (calculate_cost pose shape)"
  by (simp add: calculate_cost_def nonneg_or_inf_def weighted_deviation_nonneg)

theorem cost_nonneg_or_inf_witness:
  "weights_nonneg HandShape_defaults
   \<and> nonneg_or_inf (calculate_cost HandPosition_defaults HandShape_defaults)
   \<and> calculate_cost HandPosition_defaults HandShape_defaults = Finite 55.366"
proof -
  have weights: "weights_nonneg HandShape_defaults"
    by (simp add: weights_nonneg_def HandShape_defaults_def)
  have "calculate_cost HandPosition_defaults HandShape_defaults = Finite 55.366"
    by (simp add: calculate_cost_def out_of_bounds_def weighted_deviation_def
        HandShape_defaults_def HandPosition_defaults_def)
  then show ?thesis
    using weights cost_nonneg_or_inf [OF weights, of HandPosition_defaults] by simp
qed

text \<open>
  The shape is not validated, and a weight may be negative: with the thumb's splay cost of
  the defaults replaced by -1, the default pose is feasible and costs -0.884.
\<close>

theorem cost_negative_counterexample:
  "calculate_cost HandPosition_defaults (HandShape_defaults\<lparr>thumb_splay_cost := - 1\<rparr>)
     = Finite (- 0.884)
   \<and> \<not> nonneg_or_inf
         (calculate_cost HandPosition_defaults (HandShape_defaults\<lparr>thumb_splay_cost := - 1\<rparr>))"
  by (simp add: calculate_cost_def out_of_bounds_def weighted_deviation_def nonneg_or_inf_def
      HandShape_defaults_def HandPosition_defaults_def)

section \<open>The fingertips\<close>

lemma rotate_and_flip_right:
  "rotate_and_flip True a (x, y) =
     (x * cos (radians a) - y * sin (radians a),
      (x * cos (radians a) - y * sin (radians a)) * sin (radians a) + y * cos (radians a))"
  by (simp add: rotate_and_flip_def Let_def)

lemma rotate_and_flip_left:
  "rotate_and_flip False a (x, y) =
     (- (x * cos (radians a) - y * sin (radians a)),
      (x * cos (radians a) - y * sin (radians a)) * sin (radians a) + y * cos (radians a))"
  by (simp add: rotate_and_flip_def Let_def)

lemma radians_90: "radians 90 = pi / 2"
  by (simp add: radians_def)

text \<open>
  C1 asks that each returned tip be the standard rotation of the tip position before
  rotation, both coordinates computed from the original \<open>x\<close> and \<open>y\<close>. The loop of the source
  assigns the rotated value to \<open>x\<close> and then computes \<open>y\<close> from it
  (\<open>rotate_and_flip_right\<close>). With the default shape, the default pose and a wrist rotation
  of 90 degrees, the right hand's tips before rotation are (40, 65), (19, 150), (3, 155),
  (-16, 151) and (-30, 143); the standard rotation takes (40, 65) to (-65, 40), and the
  source returns (-65, -65): every returned \<open>y\<close> is the rotated \<open>x\<close> again.
\<close>

theorem fingertips_y_from_rotated_x:
  "get_fingertip_coords (Hands_init HandShape_defaults) True
       (HandPosition_defaults\<lparr>wrist_rotation := 90\<rparr>)
     = [(- 65, - 65), (- 150, - 150), (- 155, - 155), (- 151, - 151), (- 143, - 143)]
   \<and> spec_fingertips HandShape_defaults (HandPosition_defaults\<lparr>wrist_rotation := 90\<rparr>)
     = [(- 65, 40), (- 150, 19), (- 155, 3), (- 151, - 16), (- 143, - 30)]"
  by (simp add: get_fingertip_coords_def spec_fingertips_def spec_rotate_deg_def Hands_init_def
      HandShape_defaults_def HandPosition_defaults_def tip_before_rotation_def
      rotate_and_flip_def radians_def Let_def)

text \<open>
  C8. For every shape and the pose with all splays 0, all extensions 1 and wrist rotation 0,
  the tips are, in the order thumb, index, middle, ring, pinky, the root position plus
  \<open>(0, length)\<close>: as they are for the right hand, with the x coordinate negated for the left
  hand.
\<close>

theorem fingertips_of_straight_pose:
  "get_fingertip_coords (Hands_init shape) True
       \<lparr> wrist_rotation = 0, thumb_splay = 0, thumb_extension = 1,
         index_splay = 0, index_extension = 1, middle_splay = 0, middle_extension = 1,
         ring_splay = 0, ring_extension = 1, pinky_splay = 0, pinky_extension = 1 \<rparr>
     = [(fst (thumb_root_position shape) + 0, snd (thumb_root_position shape) + thumb_length shape),
        (fst (index_root_position shape) + 0, snd (index_root_position shape) + index_length shape),
        (fst (middle_root_position shape) + 0, snd (middle_root_position shape) + middle_length shape),
        (fst (ring_root_position shape) + 0, snd (ring_root_position shape) + ring_length shape),
        (fst (pinky_root_position shape) + 0, snd (pinky_root_position shape) + pinky_length shape)]
   \<and> get_fingertip_coords (Hands_init shape) False
       \<lparr> wrist_rotation = 0, thumb_splay = 0, thumb_extension = 1,
         index_splay = 0, index_extension = 1, middle_splay = 0, middle_extension = 1,
         ring_splay = 0, ring_extension = 1, pinky_splay = 0, pinky_extension = 1 \<rparr>
     = [(- (fst (thumb_root_position shape) + 0), snd (thumb_root_position shape) + thumb_length shape),
        (- (fst (index_root_position shape) + 0), snd (index_root_position shape) + index_length shape),
        (- (fst (middle_root_position shape) + 0), snd (middle_root_position shape) + middle_length shape),
        (- (fst (ring_root_position shape) + 0), snd (ring_root_position shape) + ring_length shape),
        (- (fst (pinky_root_position shape) + 0), snd (pinky_root_position shape) + pinky_length shape)]"
  by (simp add: get_fingertip_coords_def Hands_init_def tip_before_rotation_def
      rotate_and_flip_def radians_def Let_def)

theorem fingertips_of_straight_pose_witness:
  "get_fingertip_coords (Hands_init HandShape_defaults) True HandPosition_defaults
     = [(40, 65), (19, 150), (3, 155), (- 16, 151), (- 30, 143)]
   \<and> get_fingertip_coords (Hands_init HandShape_defaults) False HandPosition_defaults
     = [(- 40, 65), (- 19, 150), (- 3, 155), (16, 151), (30, 143)]"
  using fingertips_of_straight_pose [of HandShape_defaults]
  by (simp add: HandPosition_defaults_def HandShape_defaults_def)

section \<open>Bones and armatures\<close>

lemma T2D_matmul_raises:
  "T2D_matmul a b = Inl (TypeError ''unsupported operand type(s) for @'')"
  by (simp add: T2D_matmul_def T2D_operator_methods_def)

lemma get_transform_local_raises:
  "get_transform_local bone = Inl (TypeError ''unsupported operand type(s) for @'')"
  by (simp add: get_transform_local_def T2D_matmul_raises)

text \<open>
  The walk up the chain of parents reaches a bone without parent, whose local transform
  raises; the error passes through every level on the way back.
\<close>

lemma get_transform_world_raises:
  "get_transform_world bone = Inl (TypeError ''unsupported operand type(s) for @'')"
  by (induction bone rule: get_transform_world.induct)
     (simp_all add: get_transform_local_raises)

lemma Bone_get_worldspace_positions_raises:
  "Bone_get_worldspace_positions bone = Inl (TypeError ''unsupported operand type(s) for @'')"
  by (simp add: Bone_get_worldspace_positions_def get_transform_world_raises)

lemma positions_of_raises:
  "bs \<noteq> [] \<Longrightarrow> positions_of bs = Inl (TypeError ''unsupported operand type(s) for @'')"
  by (cases bs) (auto simp: Bone_get_worldspace_positions_raises)

lemma getattribute_bones:
  "Armature_getattribute self ''_bones'' = Inr (Dict (bones self))"
  by (simp add: Armature_getattribute_def startswith_def object_getattribute_def)

lemma map_of_in_keys:
  "k \<in> set (map fst kvs) \<Longrightarrow> \<exists>v. map_of kvs k = Some v"
  by (induction kvs) auto

lemma map_of_not_in_keys:
  "k \<notin> set (map fst kvs) \<Longrightarrow> map_of kvs k = None"
  by (induction kvs) auto

lemma call_add_bone_raises:
  "call_add_bone self bone =
     (if ''add_bone'' \<in> set (map fst (bones self))
      then Inl (TypeError ''Bone object is not callable'')
      else Inl (KeyError ''add_bone''))"
proof (cases "''add_bone'' \<in> set (map fst (bones self))")
  case True
  then obtain b where "map_of (bones self) ''add_bone'' = Some b"
    using map_of_in_keys by fastforce
  with True show ?thesis
    by (simp add: call_add_bone_def Armature_getattribute_def startswith_def)
next
  case False
  then have "map_of (bones self) ''add_bone'' = None"
    by (rule map_of_not_in_keys)
  with False show ?thesis
    by (simp add: call_add_bone_def Armature_getattribute_def startswith_def)
qed

lemma call_get_worldspace_positions_raises:
  "call_get_worldspace_positions self =
     (if ''get_worldspace_positions'' \<in> set (map fst (bones self))
      then Inl (TypeError ''Bone object is not callable'')
      else Inl (KeyError ''get_worldspace_positions''))"
proof (cases "''get_worldspace_positions'' \<in> set (map fst (bones self))")
  case True
  then obtain b where "map_of (bones self) ''get_worldspace_positions'' = Some b"
    using map_of_in_keys by fastforce
  with True show ?thesis
    by (simp add: call_get_worldspace_positions_def Armature_getattribute_def startswith_def)
next
  case False
  then have "map_of (bones self) ''get_worldspace_positions'' = None"
    by (rule map_of_not_in_keys)
  with False show ?thesis
    by (simp add: call_get_worldspace_positions_def Armature_getattribute_def startswith_def)
qed

text \<open>
  The body of \<^verbatim>\<open>add_bone\<close>, taken alone, has the three outcomes of its docstring.
\<close>

lemma add_bone_duplicate_name:
  "Bone_name bone \<in> set (map fst (bones self)) \<Longrightarrow>
   add_bone self bone = Inl (ValueError (''Bone with name '' @ Bone_name bone @ '' already exists.''))"
  by (simp add: add_bone_def)

lemma add_bone_missing_parent:
  "Bone_name bone \<notin> set (map fst (bones self)) \<Longrightarrow> Bone_parent bone = Some parent \<Longrightarrow>
   Bone_name parent \<notin> set (map fst (bones self)) \<Longrightarrow>
   add_bone self bone =
     Inl (KeyError (''Bone with name '' @ Bone_name parent @ '' does not exist in the armature.''))"
  by (simp add: add_bone_def)

lemma add_bone_inserts:
  "Bone_name bone \<notin> set (map fst (bones self)) \<Longrightarrow>
   (case Bone_parent bone of None \<Rightarrow> True
    | Some parent \<Rightarrow> Bone_name parent \<in> set (map fst (bones self))) \<Longrightarrow>
   add_bone self bone = Inr (self\<lparr>bones := bones self @ [(Bone_name bone, bone)]\<rparr>)"
  by (auto simp: add_bone_def split: option.splits)

text \<open>
  C3 asks that adding a bone fail with the duplicate-name error when the name is taken, with
  the missing-parent error when the parent is set and absent, and insert the bone otherwise.
  The body of \<^verbatim>\<open>add_bone\<close> does so, but a call on an armature never reaches it:
  \<^verbatim>\<open>__getattribute__\<close> takes \<^verbatim>\<open>add_bone\<close> for the name of a bone. Building an armature from two
  bones named a raises \<^verbatim>\<open>KeyError\<close> for the key add_bone at the first of them, and an empty
  armature refuses its first bone the same way. Moreover a bone constructed with a parent
  named p has no parent, so that even the body, called directly on the empty armature,
  inserts it and reports no missing parent.
\<close>

theorem add_bone_call_raises_KeyError:
  "Armature_init (Some [Bone_init ''a'' (Vec2 0 0) 1 0 None, Bone_init ''a'' (Vec2 0 0) 1 0 None])
     = Inl (KeyError ''add_bone'')
   \<and> call_add_bone \<lparr> bones = [] \<rparr> (Bone_init ''a'' (Vec2 0 0) 1 0 None)
     = Inl (KeyError ''add_bone'')
   \<and> call_add_bone \<lparr> bones = [] \<rparr>
       (Bone_init ''c'' (Vec2 0 0) 1 0 (Some (Bone_init ''p'' (Vec2 0 0) 1 0 None)))
     = Inl (KeyError ''add_bone'')
   \<and> add_bone \<lparr> bones = [] \<rparr>
       (Bone_init ''c'' (Vec2 0 0) 1 0 (Some (Bone_init ''p'' (Vec2 0 0) 1 0 None)))
     = Inr \<lparr> bones = [(''c'', Bone ''c'' (Vec2 0 0) 1 0 None)] \<rparr>"
  by (simp add: Armature_init_def call_add_bone_raises add_bone_def Bone_init_def)

text \<open>
  C4 asks that the world transform of a bone constructed with a parent be the parent's
  world transform composed with the bone's local transform. The constructor stores no
  parent, whatever its argument: the world transform of every constructed bone takes the
  branch for a bone without parent and is its local transform alone, and that computation
  raises \<^verbatim>\<open>TypeError\<close> instead of returning a transform.
\<close>

theorem constructed_bone_ignores_parent:
  "Bone_parent (Bone_init name pos_offset len rotation_rad (Some parent)) = None
   \<and> get_transform_world (Bone_init name pos_offset len rotation_rad (Some parent))
     = get_transform_local (Bone_init name pos_offset len rotation_rad (Some parent))
   \<and> get_transform_world (Bone_init name pos_offset len rotation_rad (Some parent))
     = Inl (TypeError ''unsupported operand type(s) for @'')"
  by (simp add: Bone_init_def get_transform_local_raises)

text \<open>
  C9. No transform query returns a value. For every bone, \<^verbatim>\<open>get_transform_local\<close>,
  \<^verbatim>\<open>get_transform_world\<close> and \<^verbatim>\<open>get_worldspace_positions\<close> raise \<^verbatim>\<open>TypeError\<close>, because the
  transform class defines no \<^verbatim>\<open>__matmul__\<close>; the class defines no \<^verbatim>\<open>multiply_point\<close> either,
  which \<^verbatim>\<open>get_worldspace_positions\<close> would call next. For every armature, the call of
  \<^verbatim>\<open>get_worldspace_positions\<close> on it raises, and so does the method's body on every armature
  that holds a bone.
\<close>

theorem transform_queries_always_raise:
  "get_transform_local bone = Inl (TypeError ''unsupported operand type(s) for @'')
   \<and> get_transform_world bone = Inl (TypeError ''unsupported operand type(s) for @'')
   \<and> Bone_get_worldspace_positions bone = Inl (TypeError ''unsupported operand type(s) for @'')
   \<and> map_of T2D_operator_methods ''__matmul__'' = None
   \<and> map_of T2D_point_methods ''multiply_point'' = None
   \<and> isl (call_get_worldspace_positions armature)
   \<and> Armature_get_worldspace_positions (armature\<lparr>bones := (name, bone) # rest\<rparr>)
     = Inl (TypeError ''unsupported operand type(s) for @'')"
  by (simp add: get_transform_local_raises get_transform_world_raises
      Bone_get_worldspace_positions_raises T2D_operator_methods_def T2D_point_methods_def
      call_get_worldspace_positions_raises Armature_get_worldspace_positions_def)

theorem transform_queries_always_raise_witness:
  "get_transform_world (Bone ''leaf'' (Vec2 0 0) 5 0
       (Some (Bone ''mid'' (Vec2 10 0) 1 0 (Some (Bone ''root'' (Vec2 0 0) 1 (pi / 2) None)))))
     = Inl (TypeError ''unsupported operand type(s) for @'')
   \<and> Bone_get_worldspace_positions (Bone ''leaf'' (Vec2 0 0) 5 0
       (Some (Bone ''mid'' (Vec2 10 0) 1 0 (Some (Bone ''root'' (Vec2 0 0) 1 (pi / 2) None)))))
     = Inl (TypeError ''unsupported operand type(s) for @'')
   \<and> call_get_worldspace_positions \<lparr> bones = [] \<rparr> = Inl (KeyError ''get_worldspace_positions'')"
  using transform_queries_always_raise
    [of "Bone ''leaf'' (Vec2 0 0) 5 0
           (Some (Bone ''mid'' (Vec2 10 0) 1 0 (Some (Bone ''root'' (Vec2 0 0) 1 (pi / 2) None))))"
        "\<lparr> bones = [] \<rparr>"]
  by (simp add: call_get_worldspace_positions_raises)

end
